theory Spec2Isabelle
  imports Main
begin

section \<open>The frame model used by the dashboard\<close>

text \<open>
  Modelled from the spec: the classes \<^verbatim>\<open>JSON::Dataset\<close>, \<^verbatim>\<open>JSON::Group\<close> and
  \<^verbatim>\<open>JSON::Frame\<close> are declared outside \<^verbatim>\<open>Dashboard.cpp\<close>. The records below carry
  exactly the accessors that \<^verbatim>\<open>Dashboard.cpp\<close> calls on them: \<^verbatim>\<open>title()\<close>, \<^verbatim>\<open>widget()\<close>
  and \<^verbatim>\<open>graph()\<close> of a dataset, \<^verbatim>\<open>title()\<close>, \<^verbatim>\<open>widget()\<close> and \<^verbatim>\<open>datasets()\<close> of a
  group, \<^verbatim>\<open>title()\<close> and \<^verbatim>\<open>groups()\<close> of a frame. A \<^verbatim>\<open>QString\<close> is a \<open>string\<close>, a
  \<^verbatim>\<open>QVector\<close> is a list, and the C++ \<^verbatim>\<open>int\<close> is \<open>int\<close>: every count is the length of a
  vector and every subtraction of the index walk is taken from an index that is not
  smaller than the count subtracted, so no operation leaves the range of \<^verbatim>\<open>int\<close> as
  long as the dashboard holds fewer than \<open>2^31\<close> widgets.
\<close>

record JSON_Dataset =
  title :: string
  widget :: string
  graph :: bool

record JSON_Group =
  title :: string
  widget :: string
  datasets :: "JSON_Dataset list"

record JSON_Frame =
  title :: string
  groups :: "JSON_Group list"

text \<open>
  Modelled from the spec: \<^verbatim>\<open>JSON::Frame::groupCount()\<close>, the number of groups of the
  frame (\<^verbatim>\<open>Dashboard::getGroup\<close> guards \<^verbatim>\<open>groups().at(index)\<close> with it).
\<close>

definition Frame_groupCount :: "JSON_Frame \<Rightarrow> int" where
  "Frame_groupCount f = int (length (groups f))"

text \<open>
  Modelled from the spec: \<^verbatim>\<open>JFI_Object\<close>, a JSON document together with its frame
  number (the sequence id of the spec). The document type is left open.
\<close>

record 'd JFI_Object =
  frameNumber :: nat
  jsonDocument :: 'd

datatype WidgetType =
  Unknown | Group | Plot | Bar | Gauge | Thermometer | Compass | Gyroscope
  | Accelerometer | Map

datatype Signal =
  Updated | DataReset | TitleChanged | WidgetCountChanged | WidgetVisibilityChanged

section \<open>The state of the dashboard\<close>

record 'd Dashboard =
  m_latestJsonFrame :: "'d JFI_Object"
  m_latestFrame :: JSON_Frame
  m_barWidgets :: "JSON_Dataset list"
  m_mapWidgets :: "JSON_Group list"
  m_plotWidgets :: "JSON_Dataset list"
  m_gaugeWidgets :: "JSON_Dataset list"
  m_compassWidgets :: "JSON_Dataset list"
  m_gyroscopeWidgets :: "JSON_Group list"
  m_thermometerWidgets :: "JSON_Dataset list"
  m_accelerometerWidgets :: "JSON_Group list"
  m_barVisibility :: "bool list"
  m_mapVisibility :: "bool list"
  m_plotVisibility :: "bool list"
  m_gaugeVisibility :: "bool list"
  m_groupVisibility :: "bool list"
  m_compassVisibility :: "bool list"
  m_gyroscopeVisibility :: "bool list"
  m_thermometerVisibility :: "bool list"
  m_accelerometerVisibility :: "bool list"

subsection \<open>Widget count functions\<close>

definition mapCount :: "'d Dashboard \<Rightarrow> int" where
  "mapCount d = int (length (m_mapWidgets d))"

definition barCount :: "'d Dashboard \<Rightarrow> int" where
  "barCount d = int (length (m_barWidgets d))"

definition plotCount :: "'d Dashboard \<Rightarrow> int" where
  "plotCount d = int (length (m_plotWidgets d))"

definition gaugeCount :: "'d Dashboard \<Rightarrow> int" where
  "gaugeCount d = int (length (m_gaugeWidgets d))"

definition groupCount :: "'d Dashboard \<Rightarrow> int" where
  "groupCount d = Frame_groupCount (m_latestFrame d)"

definition compassCount :: "'d Dashboard \<Rightarrow> int" where
  "compassCount d = int (length (m_compassWidgets d))"

definition gyroscopeCount :: "'d Dashboard \<Rightarrow> int" where
  "gyroscopeCount d = int (length (m_gyroscopeWidgets d))"

definition thermometerCount :: "'d Dashboard \<Rightarrow> int" where
  "thermometerCount d = int (length (m_thermometerWidgets d))"

definition accelerometerCount :: "'d Dashboard \<Rightarrow> int" where
  "accelerometerCount d = int (length (m_accelerometerWidgets d))"

definition totalWidgetCount :: "'d Dashboard \<Rightarrow> int" where
  "totalWidgetCount d =
     mapCount d + barCount d + plotCount d + gaugeCount d + groupCount d
     + compassCount d + gyroscopeCount d + thermometerCount d + accelerometerCount d"

text \<open>
  The counter of one kind, chosen by the kind: the \<open>count(kind)\<close> of the specification.
  \<open>Unknown\<close> has no widgets.
\<close>

fun widgetCount :: "'d Dashboard \<Rightarrow> WidgetType \<Rightarrow> int" where
  "widgetCount d Group = groupCount d"
| "widgetCount d Plot = plotCount d"
| "widgetCount d Bar = barCount d"
| "widgetCount d Gauge = gaugeCount d"
| "widgetCount d Thermometer = thermometerCount d"
| "widgetCount d Compass = compassCount d"
| "widgetCount d Gyroscope = gyroscopeCount d"
| "widgetCount d Accelerometer = accelerometerCount d"
| "widgetCount d Map = mapCount d"
| "widgetCount d Unknown = 0"

subsection \<open>Relative-to-global widget index functions\<close>

definition relativeIndex :: "'d Dashboard \<Rightarrow> int \<Rightarrow> int" where
  "relativeIndex d globalIndex =
     (let index = globalIndex in
      if index < groupCount d then index else
      let index = index - groupCount d in
      if index < plotCount d then index else
      let index = index - plotCount d in
      if index < barCount d then index else
      let index = index - barCount d in
      if index < gaugeCount d then index else
      let index = index - gaugeCount d in
      if index < thermometerCount d then index else
      let index = index - thermometerCount d in
      if index < compassCount d then index else
      let index = index - compassCount d in
      if index < gyroscopeCount d then index else
      let index = index - gyroscopeCount d in
      if index < accelerometerCount d then index else
      let index = index - accelerometerCount d in
      if index < mapCount d then index else
      - 1)"

definition widgetType :: "'d Dashboard \<Rightarrow> int \<Rightarrow> WidgetType" where
  "widgetType d globalIndex =
     (if globalIndex < 0 then Unknown else
      let index = globalIndex in
      if index < groupCount d then Group else
      let index = index - groupCount d in
      if index < plotCount d then Plot else
      let index = index - plotCount d in
      if index < barCount d then Bar else
      let index = index - barCount d in
      if index < gaugeCount d then Gauge else
      let index = index - gaugeCount d in
      if index < thermometerCount d then Thermometer else
      let index = index - thermometerCount d in
      if index < compassCount d then Compass else
      let index = index - compassCount d in
      if index < gyroscopeCount d then Gyroscope else
      let index = index - gyroscopeCount d in
      if index < accelerometerCount d then Accelerometer else
      let index = index - accelerometerCount d in
      if index < mapCount d then Map else
      Unknown)"

subsection \<open>Widget visibility access functions\<close>

text \<open>
  \<^verbatim>\<open>QVector::operator[]\<close> requires \<open>0 \<le> i < size\<close>; an index outside that range
  reads or writes outside the vector (an assertion failure in a debug build of Qt,
  undefined behaviour otherwise). The model makes it the error \<open>OutOfBounds\<close>.
\<close>

datatype error = OutOfBounds

definition QVector_at :: "'a list \<Rightarrow> int \<Rightarrow> error + 'a" where
  "QVector_at vector i =
     (if 0 \<le> i \<and> i < int (length vector) then Inr (vector ! nat i) else Inl OutOfBounds)"

definition QVector_set :: "'a list \<Rightarrow> int \<Rightarrow> 'a \<Rightarrow> error + 'a list" where
  "QVector_set vector i v =
     (if 0 \<le> i \<and> i < int (length vector) then Inr (vector[nat i := v]) else Inl OutOfBounds)"

definition getVisibility :: "bool list \<Rightarrow> int \<Rightarrow> error + bool" where
  "getVisibility vector index =
     (if index < int (length vector) then QVector_at vector index else Inr False)"

definition setVisibility :: "bool list \<Rightarrow> int \<Rightarrow> bool \<Rightarrow> error + bool list \<times> Signal list" where
  "setVisibility vector index visible =
     (if index < int (length vector) then
        (case QVector_set vector index visible of
           Inl e \<Rightarrow> Inl e
         | Inr vector' \<Rightarrow> Inr (vector', [WidgetVisibilityChanged]))
      else Inr (vector, []))"

definition barVisible :: "'d Dashboard \<Rightarrow> int \<Rightarrow> error + bool" where
  "barVisible d index = getVisibility (m_barVisibility d) index"

definition mapVisible :: "'d Dashboard \<Rightarrow> int \<Rightarrow> error + bool" where
  "mapVisible d index = getVisibility (m_mapVisibility d) index"

definition plotVisible :: "'d Dashboard \<Rightarrow> int \<Rightarrow> error + bool" where
  "plotVisible d index = getVisibility (m_plotVisibility d) index"

definition groupVisible :: "'d Dashboard \<Rightarrow> int \<Rightarrow> error + bool" where
  "groupVisible d index = getVisibility (m_groupVisibility d) index"

definition gaugeVisible :: "'d Dashboard \<Rightarrow> int \<Rightarrow> error + bool" where
  "gaugeVisible d index = getVisibility (m_gaugeVisibility d) index"

definition compassVisible :: "'d Dashboard \<Rightarrow> int \<Rightarrow> error + bool" where
  "compassVisible d index = getVisibility (m_compassVisibility d) index"

definition gyroscopeVisible :: "'d Dashboard \<Rightarrow> int \<Rightarrow> error + bool" where
  "gyroscopeVisible d index = getVisibility (m_gyroscopeVisibility d) index"

definition thermometerVisible :: "'d Dashboard \<Rightarrow> int \<Rightarrow> error + bool" where
  "thermometerVisible d index = getVisibility (m_thermometerVisibility d) index"

definition accelerometerVisible :: "'d Dashboard \<Rightarrow> int \<Rightarrow> error + bool" where
  "accelerometerVisible d index = getVisibility (m_accelerometerVisibility d) index"

text \<open>The visibility vector of one kind, chosen by the kind.\<close>

fun visibilityVector :: "'d Dashboard \<Rightarrow> WidgetType \<Rightarrow> bool list" where
  "visibilityVector d Group = m_groupVisibility d"
| "visibilityVector d Plot = m_plotVisibility d"
| "visibilityVector d Bar = m_barVisibility d"
| "visibilityVector d Gauge = m_gaugeVisibility d"
| "visibilityVector d Thermometer = m_thermometerVisibility d"
| "visibilityVector d Compass = m_compassVisibility d"
| "visibilityVector d Gyroscope = m_gyroscopeVisibility d"
| "visibilityVector d Accelerometer = m_accelerometerVisibility d"
| "visibilityVector d Map = m_mapVisibility d"
| "visibilityVector d Unknown = []"

subsection \<open>Visibility-related slots\<close>

text \<open>
  A slot returns the new state and the signals it emitted, in order of emission.
\<close>

definition setBarVisible :: "'d Dashboard \<Rightarrow> int \<Rightarrow> bool \<Rightarrow> error + 'd Dashboard \<times> Signal list" where
  "setBarVisible d i v =
     (case setVisibility (m_barVisibility d) i v of
        Inl e \<Rightarrow> Inl e
      | Inr (vector, sigs) \<Rightarrow> Inr (d\<lparr>m_barVisibility := vector\<rparr>, sigs))"

definition setMapVisible :: "'d Dashboard \<Rightarrow> int \<Rightarrow> bool \<Rightarrow> error + 'd Dashboard \<times> Signal list" where
  "setMapVisible d i v =
     (case setVisibility (m_mapVisibility d) i v of
        Inl e \<Rightarrow> Inl e
      | Inr (vector, sigs) \<Rightarrow> Inr (d\<lparr>m_mapVisibility := vector\<rparr>, sigs))"

definition setPlotVisible :: "'d Dashboard \<Rightarrow> int \<Rightarrow> bool \<Rightarrow> error + 'd Dashboard \<times> Signal list" where
  "setPlotVisible d i v =
     (case setVisibility (m_plotVisibility d) i v of
        Inl e \<Rightarrow> Inl e
      | Inr (vector, sigs) \<Rightarrow> Inr (d\<lparr>m_plotVisibility := vector\<rparr>, sigs))"

definition setGroupVisible :: "'d Dashboard \<Rightarrow> int \<Rightarrow> bool \<Rightarrow> error + 'd Dashboard \<times> Signal list" where
  "setGroupVisible d i v =
     (case setVisibility (m_groupVisibility d) i v of
        Inl e \<Rightarrow> Inl e
      | Inr (vector, sigs) \<Rightarrow> Inr (d\<lparr>m_groupVisibility := vector\<rparr>, sigs))"

definition setGaugeVisible :: "'d Dashboard \<Rightarrow> int \<Rightarrow> bool \<Rightarrow> error + 'd Dashboard \<times> Signal list" where
  "setGaugeVisible d i v =
     (case setVisibility (m_gaugeVisibility d) i v of
        Inl e \<Rightarrow> Inl e
      | Inr (vector, sigs) \<Rightarrow> Inr (d\<lparr>m_gaugeVisibility := vector\<rparr>, sigs))"

definition setCompassVisible :: "'d Dashboard \<Rightarrow> int \<Rightarrow> bool \<Rightarrow> error + 'd Dashboard \<times> Signal list" where
  "setCompassVisible d i v =
     (case setVisibility (m_compassVisibility d) i v of
        Inl e \<Rightarrow> Inl e
      | Inr (vector, sigs) \<Rightarrow> Inr (d\<lparr>m_compassVisibility := vector\<rparr>, sigs))"

definition setGyroscopeVisible :: "'d Dashboard \<Rightarrow> int \<Rightarrow> bool \<Rightarrow> error + 'd Dashboard \<times> Signal list" where
  "setGyroscopeVisible d i v =
     (case setVisibility (m_gyroscopeVisibility d) i v of
        Inl e \<Rightarrow> Inl e
      | Inr (vector, sigs) \<Rightarrow> Inr (d\<lparr>m_gyroscopeVisibility := vector\<rparr>, sigs))"

definition setThermometerVisible :: "'d Dashboard \<Rightarrow> int \<Rightarrow> bool \<Rightarrow> error + 'd Dashboard \<times> Signal list" where
  "setThermometerVisible d i v =
     (case setVisibility (m_thermometerVisibility d) i v of
        Inl e \<Rightarrow> Inl e
      | Inr (vector, sigs) \<Rightarrow> Inr (d\<lparr>m_thermometerVisibility := vector\<rparr>, sigs))"

definition setAccelerometerVisible :: "'d Dashboard \<Rightarrow> int \<Rightarrow> bool \<Rightarrow> error + 'd Dashboard \<times> Signal list" where
  "setAccelerometerVisible d i v =
     (case setVisibility (m_accelerometerVisibility d) i v of
        Inl e \<Rightarrow> Inl e
      | Inr (vector, sigs) \<Rightarrow> Inr (d\<lparr>m_accelerometerVisibility := vector\<rparr>, sigs))"

subsection \<open>Widget utility functions\<close>

text \<open>
  \<^verbatim>\<open>QString::toLower()\<close> on the letters of ASCII, which is where the widget handles
  \<^verbatim>\<open>"map"\<close>, \<^verbatim>\<open>"gyro"\<close> and \<^verbatim>\<open>"accelerometer"\<close> live.
\<close>

definition toLower_char :: "char \<Rightarrow> char" where
  "toLower_char c =
     (let n = (of_char c :: nat) in if 65 \<le> n \<and> n \<le> 90 then char_of (n + 32) else c)"

definition toLower :: "string \<Rightarrow> string" where
  "toLower s = map toLower_char s"

text \<open>
  A \<^verbatim>\<open>foreach\<close> loop that appends to a local vector is a left fold whose accumulator is
  that vector.
\<close>

definition getPlotWidgets :: "'d Dashboard \<Rightarrow> JSON_Dataset list" where
  "getPlotWidgets d =
     foldl (\<lambda>widgets group.
              foldl (\<lambda>widgets dataset.
                       if graph dataset then widgets @ [dataset] else widgets)
                widgets (datasets group))
       [] (groups (m_latestFrame d))"

definition getWidgetGroups :: "'d Dashboard \<Rightarrow> string \<Rightarrow> JSON_Group list" where
  "getWidgetGroups d handle =
     foldl (\<lambda>widgets group.
              if toLower (JSON_Group.widget group) = handle then widgets @ [group]
              else widgets)
       [] (groups (m_latestFrame d))"

definition getWidgetDatasets :: "'d Dashboard \<Rightarrow> string \<Rightarrow> JSON_Dataset list" where
  "getWidgetDatasets d handle =
     foldl (\<lambda>widgets group.
              foldl (\<lambda>widgets dataset.
                       if JSON_Dataset.widget dataset = handle then widgets @ [dataset]
                       else widgets)
                widgets (datasets group))
       [] (groups (m_latestFrame d))"

definition datasetTitles :: "JSON_Dataset list \<Rightarrow> string list" where
  "datasetTitles vector = foldl (\<lambda>list set. list @ [JSON_Dataset.title set]) [] vector"

definition groupTitles_of :: "JSON_Group list \<Rightarrow> string list" where
  "groupTitles_of vector = foldl (\<lambda>list group. list @ [JSON_Group.title group]) [] vector"

subsection \<open>Widget title functions\<close>

definition Dashboard_title :: "'d Dashboard \<Rightarrow> string" where
  "Dashboard_title d = JSON_Frame.title (m_latestFrame d)"

definition barTitles :: "'d Dashboard \<Rightarrow> string list" where
  "barTitles d = datasetTitles (m_barWidgets d)"

definition mapTitles :: "'d Dashboard \<Rightarrow> string list" where
  "mapTitles d = groupTitles_of (m_mapWidgets d)"

definition plotTitles :: "'d Dashboard \<Rightarrow> string list" where
  "plotTitles d = datasetTitles (m_plotWidgets d)"

definition groupTitles :: "'d Dashboard \<Rightarrow> string list" where
  "groupTitles d = groupTitles_of (groups (m_latestFrame d))"

definition gaugeTitles :: "'d Dashboard \<Rightarrow> string list" where
  "gaugeTitles d = datasetTitles (m_gaugeWidgets d)"

definition compassTitles :: "'d Dashboard \<Rightarrow> string list" where
  "compassTitles d = datasetTitles (m_compassWidgets d)"

definition gyroscopeTitles :: "'d Dashboard \<Rightarrow> string list" where
  "gyroscopeTitles d = groupTitles_of (m_gyroscopeWidgets d)"

definition thermometerTitles :: "'d Dashboard \<Rightarrow> string list" where
  "thermometerTitles d = datasetTitles (m_thermometerWidgets d)"

definition accelerometerTitles :: "'d Dashboard \<Rightarrow> string list" where
  "accelerometerTitles d = groupTitles_of (m_accelerometerWidgets d)"

definition widgetTitles :: "'d Dashboard \<Rightarrow> string list" where
  "widgetTitles d =
     groupTitles d @ plotTitles d @ barTitles d @ gaugeTitles d @ thermometerTitles d
     @ compassTitles d @ gyroscopeTitles d @ accelerometerTitles d @ mapTitles d"

text \<open>The title list of one kind, chosen by the kind.\<close>

fun kindTitles :: "'d Dashboard \<Rightarrow> WidgetType \<Rightarrow> string list" where
  "kindTitles d Group = groupTitles d"
| "kindTitles d Plot = plotTitles d"
| "kindTitles d Bar = barTitles d"
| "kindTitles d Gauge = gaugeTitles d"
| "kindTitles d Thermometer = thermometerTitles d"
| "kindTitles d Compass = compassTitles d"
| "kindTitles d Gyroscope = gyroscopeTitles d"
| "kindTitles d Accelerometer = accelerometerTitles d"
| "kindTitles d Map = mapTitles d"
| "kindTitles d Unknown = []"

subsection \<open>Frame data handling slots\<close>

text \<open>
  \<^verbatim>\<open>JSON::Frame::read\<close> is defined outside \<^verbatim>\<open>Dashboard.cpp\<close>. The slots take it as the
  parameter \<open>read\<close>: given the JSON document and the frame object it is called on, it
  returns whether the document was a valid frame, and the frame object afterwards.
  \<^verbatim>\<open>JFI_Empty()\<close>, the empty frame information, is a parameter as well.
\<close>

type_synonym 'd Frame_reader = "'d \<Rightarrow> JSON_Frame \<Rightarrow> bool \<times> JSON_Frame"

text \<open>The block \<^verbatim>\<open>// Clear widget data\<close> of \<^verbatim>\<open>resetData\<close> and \<^verbatim>\<open>updateData\<close>.\<close>

definition clearWidgetData :: "'d Dashboard \<Rightarrow> 'd Dashboard" where
  "clearWidgetData d =
     d\<lparr>m_barWidgets := [], m_mapWidgets := [], m_plotWidgets := [], m_gaugeWidgets := [],
       m_compassWidgets := [], m_gyroscopeWidgets := [], m_thermometerWidgets := [],
       m_accelerometerWidgets := []\<rparr>"

text \<open>The nine \<^verbatim>\<open>clear()\<close> calls on the visibility vectors.\<close>

definition clearVisibilityData :: "'d Dashboard \<Rightarrow> 'd Dashboard" where
  "clearVisibilityData d =
     d\<lparr>m_barVisibility := [], m_mapVisibility := [], m_plotVisibility := [],
       m_gaugeVisibility := [], m_groupVisibility := [], m_compassVisibility := [],
       m_gyroscopeVisibility := [], m_thermometerVisibility := [],
       m_accelerometerVisibility := []\<rparr>"

text \<open>The call \<^verbatim>\<open>m_latestFrame.read(m_latestJsonFrame.jsonDocument.object())\<close>.\<close>

definition readLatestFrame :: "'d Frame_reader \<Rightarrow> 'd Dashboard \<Rightarrow> bool \<times> 'd Dashboard" where
  "readLatestFrame read d =
     (let r = read (jsonDocument (m_latestJsonFrame d)) (m_latestFrame d)
      in (fst r, d\<lparr>m_latestFrame := snd r\<rparr>))"

definition resetData ::
  "'d JFI_Object \<Rightarrow> 'd Frame_reader \<Rightarrow> 'd Dashboard \<Rightarrow> 'd Dashboard \<times> Signal list" where
  "resetData JFI_Empty read d =
     (let d = d\<lparr>m_latestJsonFrame := JFI_Empty\<rparr>;
          d = snd (readLatestFrame read d);
          d = clearWidgetData d;
          d = clearVisibilityData d
      in (d, [Updated, DataReset, TitleChanged, WidgetCountChanged, WidgetVisibilityChanged]))"

text \<open>The block \<^verbatim>\<open>// Update widget vectors\<close>; every getter reads the frame only.\<close>

definition updateWidgetVectors :: "'d Dashboard \<Rightarrow> 'd Dashboard" where
  "updateWidgetVectors d =
     (let d = d\<lparr>m_plotWidgets := getPlotWidgets d\<rparr>;
          d = d\<lparr>m_mapWidgets := getWidgetGroups d ''map''\<rparr>;
          d = d\<lparr>m_barWidgets := getWidgetDatasets d ''bar''\<rparr>;
          d = d\<lparr>m_gaugeWidgets := getWidgetDatasets d ''gauge''\<rparr>;
          d = d\<lparr>m_gyroscopeWidgets := getWidgetGroups d ''gyro''\<rparr>;
          d = d\<lparr>m_compassWidgets := getWidgetDatasets d ''compass''\<rparr>;
          d = d\<lparr>m_thermometerWidgets := getWidgetDatasets d ''thermometer''\<rparr>;
          d = d\<lparr>m_accelerometerWidgets := getWidgetGroups d ''accelerometer''\<rparr>
      in d)"

text \<open>The loop \<^verbatim>\<open>for (i = 0; i < n; ++i) vector.append(true)\<close>, entered with \<open>i\<close>.\<close>

function appendTrue :: "int \<Rightarrow> int \<Rightarrow> bool list \<Rightarrow> bool list" where
  "appendTrue i n vector = (if i < n then appendTrue (i + 1) n (vector @ [True]) else vector)"
  by pat_completeness auto
termination
  by (relation "measure (\<lambda>(i, n, vector). nat (n - i))") auto

declare appendTrue.simps [simp del]

text \<open>The body of \<^verbatim>\<open>if (regenerateWidgets)\<close> up to its two signals.\<close>

definition regenerateVisibility :: "'d Dashboard \<Rightarrow> 'd Dashboard" where
  "regenerateVisibility d =
     (let d = clearVisibilityData d;
          d = d\<lparr>m_barVisibility := appendTrue 0 (barCount d) (m_barVisibility d)\<rparr>;
          d = d\<lparr>m_mapVisibility := appendTrue 0 (mapCount d) (m_mapVisibility d)\<rparr>;
          d = d\<lparr>m_plotVisibility := appendTrue 0 (plotCount d) (m_plotVisibility d)\<rparr>;
          d = d\<lparr>m_gaugeVisibility := appendTrue 0 (gaugeCount d) (m_gaugeVisibility d)\<rparr>;
          d = d\<lparr>m_groupVisibility := appendTrue 0 (groupCount d) (m_groupVisibility d)\<rparr>;
          d = d\<lparr>m_compassVisibility := appendTrue 0 (compassCount d) (m_compassVisibility d)\<rparr>;
          d = d\<lparr>m_gyroscopeVisibility :=
                  appendTrue 0 (gyroscopeCount d) (m_gyroscopeVisibility d)\<rparr>;
          d = d\<lparr>m_thermometerVisibility :=
                  appendTrue 0 (thermometerCount d) (m_thermometerVisibility d)\<rparr>;
          d = d\<lparr>m_accelerometerVisibility :=
                  appendTrue 0 (accelerometerCount d) (m_accelerometerVisibility d)\<rparr>
      in d)"

definition updateData :: "'d Frame_reader \<Rightarrow> 'd Dashboard \<Rightarrow> 'd Dashboard \<times> Signal list" where
  "updateData read d =
     (let barC = barCount d;
          mapC = mapCount d;
          plotC = plotCount d;
          groupC = groupCount d;
          gaugeC = gaugeCount d;
          compassC = compassCount d;
          gyroscopeC = gyroscopeCount d;
          thermometerC = thermometerCount d;
          accelerometerC = accelerometerCount d;
          pTitle = Dashboard_title d;
          d = clearWidgetData d;
          r = readLatestFrame read d;
          d = snd r
      in if \<not> fst r then (d, [])
         else
           let d = updateWidgetVectors d;
               sigs = (if pTitle \<noteq> Dashboard_title d then [TitleChanged] else []);
               regenerateWidgets =
                 (barC \<noteq> barCount d \<or> mapC \<noteq> mapCount d \<or> plotC \<noteq> plotCount d
                  \<or> gaugeC \<noteq> gaugeCount d \<or> groupC \<noteq> groupCount d
                  \<or> compassC \<noteq> compassCount d \<or> gyroscopeC \<noteq> gyroscopeCount d
                  \<or> thermometerC \<noteq> thermometerCount d
                  \<or> accelerometerC \<noteq> accelerometerCount d)
           in if regenerateWidgets
              then (regenerateVisibility d,
                    sigs @ [WidgetCountChanged, WidgetVisibilityChanged] @ [Updated])
              else (d, sigs @ [Updated]))"

definition selectLatestJSON :: "'d JFI_Object \<Rightarrow> 'd Dashboard \<Rightarrow> 'd Dashboard" where
  "selectLatestJSON frameInfo d =
     (let frameCount = frameNumber frameInfo;
          currFrameCount = frameNumber (m_latestJsonFrame d)
      in if currFrameCount < frameCount then d\<lparr>m_latestJsonFrame := frameInfo\<rparr> else d)"

text \<open>
  The \<open>ingest\<close> of the specification: the admission gate \<^verbatim>\<open>selectLatestJSON\<close> (the slot
  of \<^verbatim>\<open>jsonChanged\<close>) followed by the update pass \<^verbatim>\<open>updateData\<close> (the slot of the
  timer), which are two separate slots in the source.
\<close>

definition ingest ::
  "'d Frame_reader \<Rightarrow> 'd JFI_Object \<Rightarrow> 'd Dashboard \<Rightarrow> 'd Dashboard \<times> Signal list" where
  "ingest read frameInfo d = updateData read (selectLatestJSON frameInfo d)"

text \<open>
  The constructor: \<^verbatim>\<open>m_latestJsonFrame(JFI_Empty())\<close>, every other member
  default-constructed.
\<close>

definition Dashboard_new :: "'d JFI_Object \<Rightarrow> 'd Dashboard" where
  "Dashboard_new JFI_Empty =
     \<lparr>m_latestJsonFrame = JFI_Empty,
      m_latestFrame = \<lparr>JSON_Frame.title = [], groups = []\<rparr>,
      m_barWidgets = [], m_mapWidgets = [], m_plotWidgets = [], m_gaugeWidgets = [],
      m_compassWidgets = [], m_gyroscopeWidgets = [], m_thermometerWidgets = [],
      m_accelerometerWidgets = [],
      m_barVisibility = [], m_mapVisibility = [], m_plotVisibility = [],
      m_gaugeVisibility = [], m_groupVisibility = [], m_compassVisibility = [],
      m_gyroscopeVisibility = [], m_thermometerVisibility = [],
      m_accelerometerVisibility = []\<rparr>"

text \<open>
  Modelled from the spec: \<^verbatim>\<open>JSON::Frame::read\<close>, which is not in \<^verbatim>\<open>Dashboard.cpp\<close>.
  The specification says that a document that parses replaces the stored frame
  wholesale, and that after a document that fails to parse "the stored Frame [is] left
  untouched". The parser itself is the parameter \<open>parse\<close>.
\<close>

definition Frame_read :: "('d \<Rightarrow> JSON_Frame option) \<Rightarrow> 'd Frame_reader" where
  "Frame_read parse doc frame =
     (case parse doc of None \<Rightarrow> (False, frame) | Some f \<Rightarrow> (True, f))"

section \<open>Example frames\<close>

text \<open>
  The frame of the specification's scenario: group \<open>A\<close> with handle \<^verbatim>\<open>"map"\<close> and no
  datasets, group \<open>B\<close> with an empty handle and three plottable datasets with empty
  handles. The titles are parameters.
\<close>

definition plottable :: "string \<Rightarrow> JSON_Dataset" where
  "plottable t = \<lparr>JSON_Dataset.title = t, widget = [], graph = True\<rparr>"

definition scenarioFrame ::
  "string \<Rightarrow> string \<Rightarrow> string \<Rightarrow> string \<Rightarrow> string \<Rightarrow> string \<Rightarrow> JSON_Frame" where
  "scenarioFrame t a b t1 t2 t3 =
     \<lparr>JSON_Frame.title = t,
      groups =
        [\<lparr>JSON_Group.title = a, widget = ''map'', datasets = []\<rparr>,
         \<lparr>JSON_Group.title = b, widget = [],
          datasets = [plottable t1, plottable t2, plottable t3]\<rparr>]\<rparr>"

text \<open>
  A frame whose handles are written with capital letters: one group \<^verbatim>\<open>"Map"\<close> holding
  one dataset \<^verbatim>\<open>"Bar"\<close>.
\<close>

definition capitalFrame :: JSON_Frame where
  "capitalFrame =
     \<lparr>JSON_Frame.title = ''T'',
      groups =
        [\<lparr>JSON_Group.title = ''G'', widget = ''Map'',
          datasets = [\<lparr>JSON_Dataset.title = ''D'', widget = ''Bar'', graph = False\<rparr>]\<rparr>]\<rparr>"

text \<open>
  For the examples a document is a frame that has been parsed already, or \<open>None\<close>
  when it does not parse; the empty frame information holds \<open>None\<close>.
\<close>

definition emptyInfo :: "JSON_Frame option JFI_Object" where
  "emptyInfo = \<lparr>frameNumber = 0, jsonDocument = None\<rparr>"

definition frameInfo :: "nat \<Rightarrow> JSON_Frame option \<Rightarrow> JSON_Frame option JFI_Object" where
  "frameInfo n doc = \<lparr>frameNumber = n, jsonDocument = doc\<rparr>"

definition readParsed :: "JSON_Frame option Frame_reader" where
  "readParsed = Frame_read (\<lambda>doc. doc)"

text \<open>The dashboard after it has taken in the scenario's frame as frame number 1.\<close>

definition scenarioDashboard :: "JSON_Frame option Dashboard" where
  "scenarioDashboard =
     fst (ingest readParsed
            (frameInfo 1 (Some (scenarioFrame ''T'' ''A'' ''B'' ''x'' ''y'' ''z'')))
            (Dashboard_new emptyInfo))"

text \<open>
  The same dashboard after the user has hidden the second plot with
  \<^verbatim>\<open>setPlotVisible(1, false)\<close>.
\<close>

definition hiddenDashboard :: "JSON_Frame option Dashboard" where
  "hiddenDashboard =
     (case setPlotVisible scenarioDashboard 1 False of
        Inr (d, sigs) \<Rightarrow> d
      | Inl e \<Rightarrow> scenarioDashboard)"

section \<open>Properties\<close>

subsection \<open>The loops as list functions\<close>

lemma foldl_append_map: "foldl (\<lambda>list x. list @ [f x]) acc xs = acc @ map f xs"
  by (induction xs arbitrary: acc) simp_all

lemma foldl_append_filter:
  "foldl (\<lambda>widgets x. if P x then widgets @ [x] else widgets) acc xs = acc @ filter P xs"
  by (induction xs arbitrary: acc) simp_all

lemma foldl_foldl_append_filter:
  "foldl (\<lambda>widgets g. foldl (\<lambda>widgets x. if P x then widgets @ [x] else widgets) widgets (sel g))
     acc gs = acc @ concat (map (\<lambda>g. filter P (sel g)) gs)"
  by (induction gs arbitrary: acc) (simp_all add: foldl_append_filter)

lemma datasetTitles_map: "datasetTitles vector = map JSON_Dataset.title vector"
  by (simp add: datasetTitles_def foldl_append_map)

lemma groupTitles_of_map: "groupTitles_of vector = map JSON_Group.title vector"
  by (simp add: groupTitles_of_def foldl_append_map)

lemma getPlotWidgets_filter:
  "getPlotWidgets d = concat (map (\<lambda>g. filter graph (datasets g)) (groups (m_latestFrame d)))"
  by (simp add: getPlotWidgets_def foldl_foldl_append_filter)

lemma getWidgetGroups_filter:
  "getWidgetGroups d handle =
     filter (\<lambda>g. toLower (JSON_Group.widget g) = handle) (groups (m_latestFrame d))"
  by (simp add: getWidgetGroups_def foldl_append_filter)

lemma getWidgetDatasets_filter:
  "getWidgetDatasets d handle =
     concat (map (\<lambda>g. filter (\<lambda>x. JSON_Dataset.widget x = handle) (datasets g))
       (groups (m_latestFrame d)))"
  by (simp add: getWidgetDatasets_def foldl_foldl_append_filter)

lemma appendTrue_replicate: "appendTrue i n vector = vector @ replicate (nat (n - i)) True"
proof (induction i n vector rule: appendTrue.induct)
  case (1 i n vector)
  show ?case
  proof (cases "i < n")
    case True
    then have "nat (n - i) = Suc (nat (n - (i + 1)))" by simp
    with True "1" show ?thesis
      by (simp add: appendTrue.simps [of i n vector] replicate_append_same)
  next
    case False
    then show ?thesis by (simp add: appendTrue.simps [of i n vector])
  qed
qed


lemmas count_defs =
  mapCount_def barCount_def plotCount_def gaugeCount_def groupCount_def
  compassCount_def gyroscopeCount_def thermometerCount_def accelerometerCount_def
  Frame_groupCount_def

subsection \<open>What each block of the slots does to the state\<close>

lemma toLower_tags:
  "toLower ''map'' = ''map''" "toLower [] = []"
  by code_simp+

lemma clearWidgetData_frame [simp]:
  "m_latestFrame (clearWidgetData d) = m_latestFrame d"
  "m_latestJsonFrame (clearWidgetData d) = m_latestJsonFrame d"
  by (simp_all add: clearWidgetData_def)

lemma clearWidgetData_widgets [simp]:
  "m_barWidgets (clearWidgetData d) = []"
  "m_mapWidgets (clearWidgetData d) = []"
  "m_plotWidgets (clearWidgetData d) = []"
  "m_gaugeWidgets (clearWidgetData d) = []"
  "m_compassWidgets (clearWidgetData d) = []"
  "m_gyroscopeWidgets (clearWidgetData d) = []"
  "m_thermometerWidgets (clearWidgetData d) = []"
  "m_accelerometerWidgets (clearWidgetData d) = []"
  by (simp_all add: clearWidgetData_def)

lemma clearWidgetData_visibility [simp]:
  "visibilityVector (clearWidgetData d) k = visibilityVector d k"
  by (cases k) (simp_all add: clearWidgetData_def)

lemma updateWidgetVectors_frame [simp]:
  "m_latestFrame (updateWidgetVectors d) = m_latestFrame d"
  "m_latestJsonFrame (updateWidgetVectors d) = m_latestJsonFrame d"
  by (simp_all add: updateWidgetVectors_def Let_def)

lemma updateWidgetVectors_widgets:
  "m_plotWidgets (updateWidgetVectors d) = getPlotWidgets d"
  "m_mapWidgets (updateWidgetVectors d) = getWidgetGroups d ''map''"
  "m_barWidgets (updateWidgetVectors d) = getWidgetDatasets d ''bar''"
  "m_gaugeWidgets (updateWidgetVectors d) = getWidgetDatasets d ''gauge''"
  "m_gyroscopeWidgets (updateWidgetVectors d) = getWidgetGroups d ''gyro''"
  "m_compassWidgets (updateWidgetVectors d) = getWidgetDatasets d ''compass''"
  "m_thermometerWidgets (updateWidgetVectors d) = getWidgetDatasets d ''thermometer''"
  "m_accelerometerWidgets (updateWidgetVectors d) = getWidgetGroups d ''accelerometer''"
  by (simp_all add: updateWidgetVectors_def Let_def getPlotWidgets_def getWidgetGroups_def
      getWidgetDatasets_def)

lemma updateWidgetVectors_visibility [simp]:
  "visibilityVector (updateWidgetVectors d) k = visibilityVector d k"
  by (cases k) (simp_all add: updateWidgetVectors_def Let_def)

lemma updateWidgetVectors_clear:
  "updateWidgetVectors (clearWidgetData d) = updateWidgetVectors d"
  by (simp add: updateWidgetVectors_def clearWidgetData_def Let_def getPlotWidgets_def
      getWidgetGroups_def getWidgetDatasets_def)

lemma regenerateVisibility_eq:
  "regenerateVisibility d =
     d\<lparr>m_barVisibility := replicate (nat (barCount d)) True,
       m_mapVisibility := replicate (nat (mapCount d)) True,
       m_plotVisibility := replicate (nat (plotCount d)) True,
       m_gaugeVisibility := replicate (nat (gaugeCount d)) True,
       m_groupVisibility := replicate (nat (groupCount d)) True,
       m_compassVisibility := replicate (nat (compassCount d)) True,
       m_gyroscopeVisibility := replicate (nat (gyroscopeCount d)) True,
       m_thermometerVisibility := replicate (nat (thermometerCount d)) True,
       m_accelerometerVisibility := replicate (nat (accelerometerCount d)) True\<rparr>"
  by (simp add: regenerateVisibility_def clearVisibilityData_def Let_def count_defs
      appendTrue_replicate)

lemma regenerateVisibility_frame [simp]:
  "m_latestFrame (regenerateVisibility d) = m_latestFrame d"
  "m_latestJsonFrame (regenerateVisibility d) = m_latestJsonFrame d"
  by (simp_all add: regenerateVisibility_eq)

lemma regenerateVisibility_widgets [simp]:
  "m_barWidgets (regenerateVisibility d) = m_barWidgets d"
  "m_mapWidgets (regenerateVisibility d) = m_mapWidgets d"
  "m_plotWidgets (regenerateVisibility d) = m_plotWidgets d"
  "m_gaugeWidgets (regenerateVisibility d) = m_gaugeWidgets d"
  "m_compassWidgets (regenerateVisibility d) = m_compassWidgets d"
  "m_gyroscopeWidgets (regenerateVisibility d) = m_gyroscopeWidgets d"
  "m_thermometerWidgets (regenerateVisibility d) = m_thermometerWidgets d"
  "m_accelerometerWidgets (regenerateVisibility d) = m_accelerometerWidgets d"
  by (simp_all add: regenerateVisibility_eq)

lemma regenerateVisibility_count [simp]:
  "widgetCount (regenerateVisibility d) k = widgetCount d k"
  by (cases k) (simp_all add: count_defs)

lemma regenerateVisibility_visibility:
  "visibilityVector (regenerateVisibility d) k = replicate (nat (widgetCount d k)) True"
  by (cases k) (simp_all add: regenerateVisibility_eq)

lemma counts_differ_iff:
  "(barCount a \<noteq> barCount b \<or> mapCount a \<noteq> mapCount b \<or> plotCount a \<noteq> plotCount b
    \<or> gaugeCount a \<noteq> gaugeCount b \<or> groupCount a \<noteq> groupCount b
    \<or> compassCount a \<noteq> compassCount b \<or> gyroscopeCount a \<noteq> gyroscopeCount b
    \<or> thermometerCount a \<noteq> thermometerCount b
    \<or> accelerometerCount a \<noteq> accelerometerCount b)
   \<longleftrightarrow> (\<exists>k. widgetCount a k \<noteq> widgetCount b k)"
proof
  assume "\<exists>k. widgetCount a k \<noteq> widgetCount b k"
  then obtain k where "widgetCount a k \<noteq> widgetCount b k" ..
  then show "barCount a \<noteq> barCount b \<or> mapCount a \<noteq> mapCount b \<or> plotCount a \<noteq> plotCount b
    \<or> gaugeCount a \<noteq> gaugeCount b \<or> groupCount a \<noteq> groupCount b
    \<or> compassCount a \<noteq> compassCount b \<or> gyroscopeCount a \<noteq> gyroscopeCount b
    \<or> thermometerCount a \<noteq> thermometerCount b
    \<or> accelerometerCount a \<noteq> accelerometerCount b"
    by (cases k) simp_all
next
  assume "barCount a \<noteq> barCount b \<or> mapCount a \<noteq> mapCount b \<or> plotCount a \<noteq> plotCount b
    \<or> gaugeCount a \<noteq> gaugeCount b \<or> groupCount a \<noteq> groupCount b
    \<or> compassCount a \<noteq> compassCount b \<or> gyroscopeCount a \<noteq> gyroscopeCount b
    \<or> thermometerCount a \<noteq> thermometerCount b
    \<or> accelerometerCount a \<noteq> accelerometerCount b"
  then show "\<exists>k. widgetCount a k \<noteq> widgetCount b k"
  proof (rule contrapos_pp)
    assume "\<not> (\<exists>k. widgetCount a k \<noteq> widgetCount b k)"
    then have same: "widgetCount a k = widgetCount b k" for k by simp
    from same [of Bar] same [of Map] same [of Plot] same [of Gauge] same [of Group]
      same [of Compass] same [of Gyroscope] same [of Thermometer] same [of Accelerometer]
    show "\<not> (barCount a \<noteq> barCount b \<or> mapCount a \<noteq> mapCount b \<or> plotCount a \<noteq> plotCount b
    \<or> gaugeCount a \<noteq> gaugeCount b \<or> groupCount a \<noteq> groupCount b
    \<or> compassCount a \<noteq> compassCount b \<or> gyroscopeCount a \<noteq> gyroscopeCount b
    \<or> thermometerCount a \<noteq> thermometerCount b
    \<or> accelerometerCount a \<noteq> accelerometerCount b)"
      by simp
  qed
qed

lemma readLatestFrame_clear:
  "readLatestFrame read (clearWidgetData d)
   = (fst (readLatestFrame read d), clearWidgetData (snd (readLatestFrame read d)))"
  by (simp add: readLatestFrame_def clearWidgetData_def Let_def)

lemma widgetCount_clear_group:
  "groupCount (clearWidgetData d) = groupCount d"
  by (simp add: groupCount_def)

text \<open>The update pass, with the saved counts and title read off the state before it.\<close>

lemma updateData_eq:
  "updateData read d =
     (let r = readLatestFrame read d in
      if \<not> fst r then (clearWidgetData (snd r), [])
      else
        let d3 = updateWidgetVectors (snd r);
            sigs = (if Dashboard_title d \<noteq> Dashboard_title d3 then [TitleChanged] else [])
        in if \<exists>k. widgetCount d k \<noteq> widgetCount d3 k
           then (regenerateVisibility d3,
                 sigs @ [WidgetCountChanged, WidgetVisibilityChanged, Updated])
           else (d3, sigs @ [Updated]))"
  unfolding updateData_def Let_def readLatestFrame_clear fst_conv snd_conv
    updateWidgetVectors_clear counts_differ_iff
  by simp


lemma updateWidgetVectors_others [simp]:
  "m_barVisibility (updateWidgetVectors d) = m_barVisibility d"
  "m_mapVisibility (updateWidgetVectors d) = m_mapVisibility d"
  "m_plotVisibility (updateWidgetVectors d) = m_plotVisibility d"
  "m_gaugeVisibility (updateWidgetVectors d) = m_gaugeVisibility d"
  "m_groupVisibility (updateWidgetVectors d) = m_groupVisibility d"
  "m_compassVisibility (updateWidgetVectors d) = m_compassVisibility d"
  "m_gyroscopeVisibility (updateWidgetVectors d) = m_gyroscopeVisibility d"
  "m_thermometerVisibility (updateWidgetVectors d) = m_thermometerVisibility d"
  "m_accelerometerVisibility (updateWidgetVectors d) = m_accelerometerVisibility d"
  "Dashboard.more (updateWidgetVectors d) = Dashboard.more d"
  by (simp_all add: updateWidgetVectors_def Let_def getPlotWidgets_def getWidgetGroups_def
      getWidgetDatasets_def)

lemma getters_frame:
  assumes "m_latestFrame d = m_latestFrame e"
  shows "getPlotWidgets d = getPlotWidgets e"
    and "getWidgetGroups d handle = getWidgetGroups e handle"
    and "getWidgetDatasets d handle = getWidgetDatasets e handle"
  using assms by (simp_all add: getPlotWidgets_def getWidgetGroups_def getWidgetDatasets_def)

text \<open>A state whose cached collections are those of its frame is left as it is.\<close>

lemma updateWidgetVectors_fixed:
  assumes "m_latestFrame y = m_latestFrame z"
    and "m_plotWidgets y = getPlotWidgets z"
    and "m_mapWidgets y = getWidgetGroups z ''map''"
    and "m_barWidgets y = getWidgetDatasets z ''bar''"
    and "m_gaugeWidgets y = getWidgetDatasets z ''gauge''"
    and "m_gyroscopeWidgets y = getWidgetGroups z ''gyro''"
    and "m_compassWidgets y = getWidgetDatasets z ''compass''"
    and "m_thermometerWidgets y = getWidgetDatasets z ''thermometer''"
    and "m_accelerometerWidgets y = getWidgetGroups z ''accelerometer''"
  shows "updateWidgetVectors y = y"
  by (rule Dashboard.equality)
    (simp_all add: updateWidgetVectors_widgets assms getters_frame [OF assms(1)])

lemma updateWidgetVectors_idem:
  "updateWidgetVectors (updateWidgetVectors d) = updateWidgetVectors d"
  by (rule updateWidgetVectors_fixed [of _ d]) (simp_all add: updateWidgetVectors_widgets)

lemma updateWidgetVectors_regenerate:
  "updateWidgetVectors (regenerateVisibility (updateWidgetVectors d))
   = regenerateVisibility (updateWidgetVectors d)"
  by (rule updateWidgetVectors_fixed [of _ d]) (simp_all add: updateWidgetVectors_widgets)

lemma clearWidgetData_idem: "clearWidgetData (clearWidgetData d) = clearWidgetData d"
  by (simp add: clearWidgetData_def)

lemma selectLatestJSON_keeps [simp]:
  "m_latestFrame (selectLatestJSON fi d) = m_latestFrame d"
  "widgetCount (selectLatestJSON fi d) k = widgetCount d k"
  "visibilityVector (selectLatestJSON fi d) k = visibilityVector d k"
  "Dashboard_title (selectLatestJSON fi d) = Dashboard_title d"
  by (cases k; simp add: selectLatestJSON_def Let_def count_defs Dashboard_title_def)+

lemma selectLatestJSON_frameNumber:
  "frameNumber fi \<le> frameNumber (m_latestJsonFrame (selectLatestJSON fi d))"
  by (simp add: selectLatestJSON_def Let_def)

lemma selectLatestJSON_stale:
  "frameNumber fi \<le> frameNumber (m_latestJsonFrame d) \<Longrightarrow> selectLatestJSON fi d = d"
  by (simp add: selectLatestJSON_def Let_def)

lemma readLatestFrame_keeps [simp]:
  "m_latestJsonFrame (snd (readLatestFrame read d)) = m_latestJsonFrame d"
  "visibilityVector (snd (readLatestFrame read d)) k = visibilityVector d k"
  by (cases k; simp add: readLatestFrame_def Let_def)+

lemma updateData_jsonFrame:
  "m_latestJsonFrame (fst (updateData read d)) = m_latestJsonFrame d"
  by (simp add: updateData_eq Let_def)


lemma readLatestFrame_fst:
  "fst (readLatestFrame read d) = fst (read (jsonDocument (m_latestJsonFrame d)) (m_latestFrame d))"
  "m_latestFrame (snd (readLatestFrame read d))
   = snd (read (jsonDocument (m_latestJsonFrame d)) (m_latestFrame d))"
  by (simp_all add: readLatestFrame_def Let_def)

lemma readLatestFrame_widgets [simp]:
  "m_barWidgets (snd (readLatestFrame read d)) = m_barWidgets d"
  "m_mapWidgets (snd (readLatestFrame read d)) = m_mapWidgets d"
  "m_plotWidgets (snd (readLatestFrame read d)) = m_plotWidgets d"
  "m_gaugeWidgets (snd (readLatestFrame read d)) = m_gaugeWidgets d"
  "m_compassWidgets (snd (readLatestFrame read d)) = m_compassWidgets d"
  "m_gyroscopeWidgets (snd (readLatestFrame read d)) = m_gyroscopeWidgets d"
  "m_thermometerWidgets (snd (readLatestFrame read d)) = m_thermometerWidgets d"
  "m_accelerometerWidgets (snd (readLatestFrame read d)) = m_accelerometerWidgets d"
  by (simp_all add: readLatestFrame_def Let_def)

lemma Frame_read_None:
  "parse doc = None \<Longrightarrow> Frame_read parse doc frame = (False, frame)"
  by (simp add: Frame_read_def)

lemma updateData_invalid:
  assumes "\<not> fst (readLatestFrame read d)"
  shows "updateData read d = (clearWidgetData (snd (readLatestFrame read d)), [])"
  using assms by (simp add: updateData_eq Let_def)

lemmas title_defs =
  widgetTitles_def groupTitles_def plotTitles_def barTitles_def gaugeTitles_def
  thermometerTitles_def compassTitles_def gyroscopeTitles_def accelerometerTitles_def
  mapTitles_def datasetTitles_map groupTitles_of_map

lemmas getter_filters = getPlotWidgets_filter getWidgetGroups_filter getWidgetDatasets_filter

lemma regenerateVisibility_titles:
  "widgetTitles (regenerateVisibility d) = widgetTitles d"
  "totalWidgetCount (regenerateVisibility d) = totalWidgetCount d"
  by (simp_all add: title_defs totalWidgetCount_def count_defs)

lemma updateData_valid_cases:
  assumes "fst (readLatestFrame read d)"
  shows "fst (updateData read d) = updateWidgetVectors (snd (readLatestFrame read d))
         \<or> fst (updateData read d)
            = regenerateVisibility (updateWidgetVectors (snd (readLatestFrame read d)))"
  using assms by (simp add: updateData_eq Let_def)

lemma updateData_fixed:
  assumes "readLatestFrame read y = (ok, y)"
    and "ok \<Longrightarrow> updateWidgetVectors y = y"
    and "\<not> ok \<Longrightarrow> clearWidgetData y = y"
  shows "updateData read y = (y, if ok then [Updated] else [])"
  using assms by (simp add: updateData_eq Let_def)

lemma updateData_frame:
  "m_latestFrame (fst (updateData read d)) = m_latestFrame (snd (readLatestFrame read d))"
  by (simp add: updateData_eq Let_def)

lemma updateData_fixed_point:
  "updateWidgetVectors (fst (updateData read d)) = fst (updateData read d)"
  if "fst (readLatestFrame read d)"
  using that
  by (simp add: updateData_eq Let_def updateWidgetVectors_idem updateWidgetVectors_regenerate)

lemma updateData_cleared:
  "clearWidgetData (fst (updateData read d)) = fst (updateData read d)"
  if "\<not> fst (readLatestFrame read d)"
  using that by (simp add: updateData_eq Let_def clearWidgetData_idem)

section \<open>The claims\<close>

subsection \<open>Global index resolution\<close>

text \<open>
  C1. For every global index in \<open>[0, totalWidgetCount())\<close>, the subtraction walk of
  \<^verbatim>\<open>widgetType\<close> and \<^verbatim>\<open>relativeIndex\<close> yields a kind other than \<open>Unknown\<close> and a
  local index that lies in \<open>[0, count(kind))\<close> for that kind.
\<close>

theorem resolve_in_range:
  assumes "0 \<le> g" and "g < totalWidgetCount d"
  shows "widgetType d g \<noteq> Unknown \<and> 0 \<le> relativeIndex d g
         \<and> relativeIndex d g < widgetCount d (widgetType d g)"
  using assms
  by (auto simp: widgetType_def relativeIndex_def totalWidgetCount_def Let_def count_defs)

theorem resolve_in_range_witness:
  "(0::int) \<le> 3 \<and> 3 < totalWidgetCount scenarioDashboard
   \<and> widgetType scenarioDashboard 3 \<noteq> Unknown
   \<and> 0 \<le> relativeIndex scenarioDashboard 3
   \<and> relativeIndex scenarioDashboard 3
       < widgetCount scenarioDashboard (widgetType scenarioDashboard 3)"
proof -
  have h1: "(0::int) \<le> 3" by simp
  have h2: "3 < totalWidgetCount scenarioDashboard" by code_simp
  from resolve_in_range [OF h1 h2] h1 h2 show ?thesis by simp
qed

text \<open>
  In the scenario's dashboard the global index 3 is the second plot: two groups come
  first, then the three plots.
\<close>

lemma scenario_resolve_3:
  "widgetType scenarioDashboard 3 = Plot \<and> relativeIndex scenarioDashboard 3 = 1"
  by code_simp

text \<open>
  Beyond the last widget both functions give the sentinel. Below zero only
  \<^verbatim>\<open>widgetType\<close> does, through its guard \<^verbatim>\<open>if (globalIndex < 0)\<close>; \<^verbatim>\<open>relativeIndex\<close> has
  no such guard, its first comparison \<^verbatim>\<open>index < groupCount()\<close> holds for every negative
  index, and it returns the index itself.
\<close>

lemma resolve_beyond:
  "totalWidgetCount d \<le> g \<Longrightarrow> widgetType d g = Unknown \<and> relativeIndex d g = - 1"
  by (simp add: widgetType_def relativeIndex_def totalWidgetCount_def Let_def count_defs)

lemma resolve_negative:
  "g < 0 \<Longrightarrow> widgetType d g = Unknown \<and> relativeIndex d g = g"
  by (simp add: widgetType_def relativeIndex_def count_defs)

text \<open>
  C2. For a global index that is negative or at least \<open>totalWidgetCount()\<close>, the claim
  expects \<open>widgetType = Unknown\<close> and \<open>relativeIndex = -1\<close>. At the global index
  \<open>-2\<close> the code returns \<open>Unknown\<close> and the local index \<open>-2\<close>.
\<close>

theorem relativeIndex_negative:
  "widgetType scenarioDashboard (- 2) = Unknown
   \<and> relativeIndex scenarioDashboard (- 2) = - 2"
  by code_simp

subsection \<open>Visibility across an update\<close>

text \<open>
  C3. An ingest whose frame is valid: if the count of at least one kind differs from
  that kind's count before the ingest, then the visibility vector of every kind is all
  true and as long as the kind's new count; if no count changed, every visibility
  vector is what it was before, hidden entries included.
\<close>

theorem ingest_visibility:
  assumes "fst (readLatestFrame read (selectLatestJSON fi d))"
  shows "((\<exists>k. widgetCount (fst (ingest read fi d)) k \<noteq> widgetCount d k) \<longrightarrow>
            (\<forall>k. visibilityVector (fst (ingest read fi d)) k
                 = replicate (nat (widgetCount (fst (ingest read fi d)) k)) True))
         \<and> ((\<forall>k. widgetCount (fst (ingest read fi d)) k = widgetCount d k) \<longrightarrow>
            (\<forall>k. visibilityVector (fst (ingest read fi d)) k = visibilityVector d k))"
proof -
  define x where "x = selectLatestJSON fi d"
  define d3 where "d3 = updateWidgetVectors (snd (readLatestFrame read x))"
  have valid: "fst (readLatestFrame read x)" using assms by (simp add: x_def)
  have before: "widgetCount x k = widgetCount d k" for k by (simp add: x_def)
  show ?thesis
  proof (cases "\<exists>k. widgetCount x k \<noteq> widgetCount d3 k")
    case True
    with valid have "fst (ingest read fi d) = regenerateVisibility d3"
      by (simp add: ingest_def updateData_eq Let_def x_def [symmetric] d3_def [symmetric])
    with True before show ?thesis
      by (simp add: regenerateVisibility_visibility) metis
  next
    case False
    with valid have "fst (ingest read fi d) = d3"
      by (simp add: ingest_def updateData_eq Let_def x_def [symmetric] d3_def [symmetric])
    moreover have "visibilityVector d3 k = visibilityVector d k" for k
      by (simp add: d3_def x_def)
    ultimately show ?thesis using False before by simp
  qed
qed

theorem ingest_visibility_witness:
  "fst (readLatestFrame readParsed
          (selectLatestJSON (frameInfo 1 (Some (scenarioFrame ''T'' ''A'' ''B'' ''x'' ''y'' ''z'')))
             (Dashboard_new emptyInfo)))
   \<and> visibilityVector
         (fst (ingest readParsed
                 (frameInfo 1 (Some (scenarioFrame ''T'' ''A'' ''B'' ''x'' ''y'' ''z'')))
                 (Dashboard_new emptyInfo))) Plot = [True, True, True]
   \<and> fst (readLatestFrame readParsed
          (selectLatestJSON (frameInfo 2 (Some (scenarioFrame ''T'' ''C'' ''D'' ''u'' ''v'' ''w'')))
             hiddenDashboard))
   \<and> visibilityVector
         (fst (ingest readParsed
                 (frameInfo 2 (Some (scenarioFrame ''T'' ''C'' ''D'' ''u'' ''v'' ''w'')))
                 hiddenDashboard)) Plot = [True, False, True]"
proof -
  let ?f1 = "frameInfo 1 (Some (scenarioFrame ''T'' ''A'' ''B'' ''x'' ''y'' ''z''))"
  let ?f2 = "frameInfo 2 (Some (scenarioFrame ''T'' ''C'' ''D'' ''u'' ''v'' ''w''))"
  let ?d0 = "Dashboard_new emptyInfo"
  have v1: "fst (readLatestFrame readParsed (selectLatestJSON ?f1 ?d0))"
    by code_simp
  have v2: "fst (readLatestFrame readParsed (selectLatestJSON ?f2 hiddenDashboard))"
    by code_simp
  have "widgetCount (fst (ingest readParsed ?f1 ?d0)) Plot \<noteq> widgetCount ?d0 Plot"
    by code_simp
  then have changed: "\<exists>k. widgetCount (fst (ingest readParsed ?f1 ?d0)) k \<noteq> widgetCount ?d0 k"
    by (rule exI)
  have same: "\<forall>k. widgetCount (fst (ingest readParsed ?f2 hiddenDashboard)) k
                  = widgetCount hiddenDashboard k"
  proof
    fix k
    show "widgetCount (fst (ingest readParsed ?f2 hiddenDashboard)) k
          = widgetCount hiddenDashboard k"
      by (cases k; hypsubst; code_simp)
  qed
  from ingest_visibility [OF v1] changed
  have "visibilityVector (fst (ingest readParsed ?f1 ?d0)) Plot
        = replicate (nat (widgetCount (fst (ingest readParsed ?f1 ?d0)) Plot)) True"
    by blast
  moreover have "replicate (nat (widgetCount (fst (ingest readParsed ?f1 ?d0)) Plot)) True
        = [True, True, True]"
    by code_simp
  moreover from ingest_visibility [OF v2] same
  have "visibilityVector (fst (ingest readParsed ?f2 hiddenDashboard)) Plot
        = visibilityVector hiddenDashboard Plot"
    by blast
  moreover have "visibilityVector hiddenDashboard Plot = [True, False, True]"
    by code_simp
  ultimately show ?thesis using v1 v2 by simp
qed

subsection \<open>A frame that does not parse\<close>

text \<open>
  C4. When the document that the update pass reads fails to parse, the eight cached
  collections are cleared, the stored frame and every visibility vector are left as
  they were, and no signal is emitted. \<^verbatim>\<open>JSON::Frame::read\<close> is the reader modelled from
  the specification, \<open>Frame_read\<close>.
\<close>

theorem ingest_unparseable:
  assumes "parse (jsonDocument (m_latestJsonFrame (selectLatestJSON fi d))) = None"
  shows "(let d' = fst (ingest (Frame_read parse) fi d) in
            m_plotWidgets d' = [] \<and> m_barWidgets d' = [] \<and> m_gaugeWidgets d' = []
            \<and> m_thermometerWidgets d' = [] \<and> m_compassWidgets d' = []
            \<and> m_gyroscopeWidgets d' = [] \<and> m_accelerometerWidgets d' = []
            \<and> m_mapWidgets d' = []
            \<and> m_latestFrame d' = m_latestFrame d
            \<and> (\<forall>k. visibilityVector d' k = visibilityVector d k))
         \<and> snd (ingest (Frame_read parse) fi d) = []"
proof -
  define x where "x = selectLatestJSON fi d"
  have failed: "\<not> fst (readLatestFrame (Frame_read parse) x)"
    and frame: "m_latestFrame (snd (readLatestFrame (Frame_read parse) x)) = m_latestFrame d"
    using assms by (simp_all add: readLatestFrame_fst x_def Frame_read_None)
  have "ingest (Frame_read parse) fi d
        = (clearWidgetData (snd (readLatestFrame (Frame_read parse) x)), [])"
    using updateData_invalid [OF failed] by (simp add: ingest_def x_def)
  then show ?thesis using frame by (simp add: Let_def x_def)
qed

theorem ingest_unparseable_witness:
  "(\<lambda>doc. doc) (jsonDocument (m_latestJsonFrame
       (selectLatestJSON (frameInfo 2 None) hiddenDashboard))) = None
   \<and> m_plotWidgets (fst (ingest readParsed (frameInfo 2 None) hiddenDashboard)) = []
   \<and> m_mapWidgets (fst (ingest readParsed (frameInfo 2 None) hiddenDashboard)) = []
   \<and> m_latestFrame (fst (ingest readParsed (frameInfo 2 None) hiddenDashboard))
       = scenarioFrame ''T'' ''A'' ''B'' ''x'' ''y'' ''z''
   \<and> visibilityVector (fst (ingest readParsed (frameInfo 2 None) hiddenDashboard)) Plot
       = [True, False, True]
   \<and> snd (ingest readParsed (frameInfo 2 None) hiddenDashboard) = []"
proof -
  have h: "(\<lambda>doc. doc) (jsonDocument (m_latestJsonFrame
       (selectLatestJSON (frameInfo 2 None) hiddenDashboard))) = None"
    by code_simp
  have frame: "m_latestFrame hiddenDashboard = scenarioFrame ''T'' ''A'' ''B'' ''x'' ''y'' ''z''"
    by code_simp
  have vis: "visibilityVector hiddenDashboard Plot = [True, False, True]"
    by code_simp
  note ingest_unparseable
    [where parse = "\<lambda>doc. doc" and fi = "frameInfo 2 None" and d = hiddenDashboard]
  note result = this [OF h, unfolded Let_def, folded readParsed_def]
  from result
  have "\<forall>k. visibilityVector (fst (ingest readParsed (frameInfo 2 None) hiddenDashboard)) k
            = visibilityVector hiddenDashboard k"
    by (elim conjE)
  then have "visibilityVector (fst (ingest readParsed (frameInfo 2 None) hiddenDashboard)) Plot
            = visibilityVector hiddenDashboard Plot"
    by (rule spec)
  with result h frame vis show ?thesis
    by (simp del: visibilityVector.simps)
qed

text \<open>
  C10. After the early return on a document that fails to parse, the eight cached
  collections are empty; the group count is read from the stored frame, which the
  clearing block does not touch, and the total widget count equals the group count.
  This holds whatever \<^verbatim>\<open>JSON::Frame::read\<close> does to the frame.
\<close>

theorem ingest_unparseable_counts:
  assumes "\<not> fst (readLatestFrame read (selectLatestJSON fi d))"
  shows "(let d' = fst (ingest read fi d) in
            m_plotWidgets d' = [] \<and> m_barWidgets d' = [] \<and> m_gaugeWidgets d' = []
            \<and> m_thermometerWidgets d' = [] \<and> m_compassWidgets d' = []
            \<and> m_gyroscopeWidgets d' = [] \<and> m_accelerometerWidgets d' = []
            \<and> m_mapWidgets d' = []
            \<and> groupCount d' = int (length (groups (m_latestFrame d')))
            \<and> totalWidgetCount d' = groupCount d')
         \<and> groupCount (clearWidgetData (selectLatestJSON fi d)) = groupCount d"
proof -
  define x where "x = selectLatestJSON fi d"
  have "ingest read fi d = (clearWidgetData (snd (readLatestFrame read x)), [])"
    using updateData_invalid [of read x] assms by (simp add: ingest_def x_def)
  then show ?thesis
    by (simp add: Let_def totalWidgetCount_def count_defs)
qed

theorem ingest_unparseable_counts_witness:
  "\<not> fst (readLatestFrame readParsed (selectLatestJSON (frameInfo 2 None) hiddenDashboard))
   \<and> m_plotWidgets (fst (ingest readParsed (frameInfo 2 None) hiddenDashboard)) = []
   \<and> groupCount (fst (ingest readParsed (frameInfo 2 None) hiddenDashboard)) = 2
   \<and> totalWidgetCount (fst (ingest readParsed (frameInfo 2 None) hiddenDashboard)) = 2"
proof -
  have h: "\<not> fst (readLatestFrame readParsed
                     (selectLatestJSON (frameInfo 2 None) hiddenDashboard))"
    by code_simp
  have g: "groupCount (fst (ingest readParsed (frameInfo 2 None) hiddenDashboard)) = 2"
    by code_simp
  from ingest_unparseable_counts [OF h, unfolded Let_def] h g show ?thesis
    by simp
qed

subsection \<open>The signals of a reset\<close>

text \<open>
  C5. The claim has \<^verbatim>\<open>resetData\<close> emit \<open>dataReset\<close>, \<open>titleChanged\<close>,
  \<open>widgetCountChanged\<close>, \<open>widgetVisibilityChanged\<close>, \<open>updated\<close> in that order. The code
  emits \<open>updated\<close> first; the other four follow in the order of the claim.
\<close>

theorem resetData_signals:
  "snd (resetData JFI_Empty read d)
   = [Updated, DataReset, TitleChanged, WidgetCountChanged, WidgetVisibilityChanged]"
  by (simp add: resetData_def Let_def)

theorem resetData_updated_not_last:
  "snd (resetData emptyInfo readParsed scenarioDashboard)
   \<noteq> [DataReset, TitleChanged, WidgetCountChanged, WidgetVisibilityChanged, Updated]"
  by (simp add: resetData_def Let_def)

subsection \<open>Visibility lookups out of range\<close>

text \<open>
  An index at or beyond the length of the vector is caught by the guard
  \<^verbatim>\<open>index < vector.count()\<close>: the getter answers \<open>false\<close>, the setter changes nothing and
  emits nothing.
\<close>

lemma visibility_beyond:
  "int (length vector) \<le> index \<Longrightarrow>
     getVisibility vector index = Inr False \<and> setVisibility vector index v = Inr (vector, [])"
  by (simp add: getVisibility_def setVisibility_def)

text \<open>
  C6. The claim includes every negative local index. A negative index passes the guard
  \<^verbatim>\<open>index < vector.count()\<close>, and \<^verbatim>\<open>vector[index]\<close> is evaluated outside the vector,
  for the getter and for the setter.
\<close>

theorem visibility_negative_index:
  "getVisibility [True] (- 1) = Inl OutOfBounds
   \<and> setVisibility [True] (- 1) False = Inl OutOfBounds
   \<and> plotVisible scenarioDashboard (- 1) = Inl OutOfBounds
   \<and> setPlotVisible scenarioDashboard (- 1) False = Inl OutOfBounds"
  by code_simp

subsection \<open>Two deliveries with one frame number\<close>

text \<open>
  C7. The claim has the second of two ingests with the same frame number emit nothing.
  The admission gate does reject the second frame, but the update pass runs all the
  same: it reads the stored document again, and when that document is a valid frame it
  ends with \<open>updated\<close>. The state is unchanged, and \<open>updated\<close> is the only signal, for
  every reader whose result is the same when it is run again on the frame it produced.
\<close>

theorem ingest_same_id:
  assumes stable: "\<forall>doc frame. read doc (snd (read doc frame)) = read doc frame"
    and same: "frameNumber fi' = frameNumber fi"
  shows "fst (ingest read fi' (fst (ingest read fi d))) = fst (ingest read fi d)
         \<and> snd (ingest read fi' (fst (ingest read fi d)))
           = (if fst (readLatestFrame read (fst (ingest read fi d))) then [Updated] else [])"
proof -
  define x where "x = selectLatestJSON fi d"
  define y where "y = fst (updateData read x)"
  define r where "r = read (jsonDocument (m_latestJsonFrame x)) (m_latestFrame x)"
  have y_ingest: "fst (ingest read fi d) = y"
    by (simp add: ingest_def x_def y_def)
  have json: "m_latestJsonFrame y = m_latestJsonFrame x"
    by (simp add: y_def updateData_jsonFrame)
  have "frameNumber fi' \<le> frameNumber (m_latestJsonFrame y)"
    using selectLatestJSON_frameNumber [of fi d] by (simp add: json same x_def)
  then have gate: "selectLatestJSON fi' y = y"
    by (rule selectLatestJSON_stale)
  have frame: "m_latestFrame y = snd r"
    by (simp add: y_def r_def updateData_frame readLatestFrame_fst)
  have "read (jsonDocument (m_latestJsonFrame x)) (snd r) = r"
    using stable by (simp add: r_def)
  then have read_y: "readLatestFrame read y = (fst r, y)"
    by (simp add: readLatestFrame_def Let_def json frame [symmetric])
  have valid_x: "fst (readLatestFrame read x) = fst r"
    by (simp add: readLatestFrame_fst r_def)
  have "updateData read y = (y, if fst r then [Updated] else [])"
  proof (rule updateData_fixed [OF read_y])
    assume "fst r"
    then show "updateWidgetVectors y = y"
      unfolding y_def by (intro updateData_fixed_point) (simp add: valid_x)
  next
    assume "\<not> fst r"
    then show "clearWidgetData y = y"
      unfolding y_def by (intro updateData_cleared) (simp add: valid_x)
  qed
  then show ?thesis
    by (simp add: y_ingest ingest_def [of read fi' y] gate read_y)
qed

theorem ingest_same_id_witness:
  "(\<forall>doc frame. readParsed doc (snd (readParsed doc frame)) = readParsed doc frame)
   \<and> frameNumber (frameInfo 1 (Some capitalFrame))
       = frameNumber (frameInfo 1 (Some (scenarioFrame ''T'' ''A'' ''B'' ''x'' ''y'' ''z'')))
   \<and> fst (ingest readParsed (frameInfo 1 (Some capitalFrame)) scenarioDashboard)
       = scenarioDashboard
   \<and> snd (ingest readParsed (frameInfo 1 (Some capitalFrame)) scenarioDashboard) = [Updated]"
proof -
  let ?fi = "frameInfo 1 (Some (scenarioFrame ''T'' ''A'' ''B'' ''x'' ''y'' ''z''))"
  let ?fi' = "frameInfo 1 (Some capitalFrame)"
  have stable: "\<forall>doc frame. readParsed doc (snd (readParsed doc frame)) = readParsed doc frame"
    by (simp add: readParsed_def Frame_read_def split: option.split)
  have same: "frameNumber ?fi' = frameNumber ?fi"
    by (simp add: frameInfo_def)
  have valid: "fst (readLatestFrame readParsed scenarioDashboard)"
    by code_simp
  note ingest_same_id
    [OF stable same, of "Dashboard_new emptyInfo", folded scenarioDashboard_def]
  with stable same valid show ?thesis
    by simp
qed

theorem ingest_same_id_emits_updated:
  "snd (ingest readParsed
          (frameInfo 1 (Some (scenarioFrame ''T'' ''A'' ''B'' ''x'' ''y'' ''z'')))
          (fst (ingest readParsed
                  (frameInfo 1 (Some (scenarioFrame ''T'' ''A'' ''B'' ''x'' ''y'' ''z'')))
                  (Dashboard_new emptyInfo)))) \<noteq> []"
  by code_simp

subsection \<open>Titles in the order of the kinds\<close>

text \<open>
  C8. \<^verbatim>\<open>widgetTitles()\<close> is the concatenation of the title lists of the kinds in the
  order Group, Plot, Bar, Gauge, Thermometer, Compass, Gyroscope, Accelerometer, Map.
  After the frame of the scenario has been read (group \<open>A\<close> with handle \<^verbatim>\<open>"map"\<close>,
  group \<open>B\<close> with three plottable datasets), the titles are
  \<open>[A, B, ds1, ds2, ds3, A]\<close> and there are six widgets.
\<close>

theorem widgetTitles_kind_order:
  assumes "read (jsonDocument (m_latestJsonFrame d)) (m_latestFrame d)
           = (True, scenarioFrame t a b t1 t2 t3)"
  shows "widgetTitles d
         = concat (map (kindTitles d)
             [Group, Plot, Bar, Gauge, Thermometer, Compass, Gyroscope, Accelerometer, Map])
         \<and> widgetTitles (fst (updateData read d)) = [a, b, t1, t2, t3, a]
         \<and> totalWidgetCount (fst (updateData read d)) = 6"
proof -
  define d3 where "d3 = updateWidgetVectors (snd (readLatestFrame read d))"
  have kinds: "widgetTitles d
         = concat (map (kindTitles d)
             [Group, Plot, Bar, Gauge, Thermometer, Compass, Gyroscope, Accelerometer, Map])"
    by (simp add: widgetTitles_def)
  have valid: "fst (readLatestFrame read d)"
    and frame: "m_latestFrame (snd (readLatestFrame read d)) = scenarioFrame t a b t1 t2 t3"
    using assms by (simp_all add: readLatestFrame_fst)
  have titles: "widgetTitles d3 = [a, b, t1, t2, t3, a]"
    by (simp add: d3_def title_defs updateWidgetVectors_widgets getter_filters frame
        scenarioFrame_def plottable_def toLower_tags)
  have total: "totalWidgetCount d3 = 6"
    by (simp add: d3_def totalWidgetCount_def count_defs updateWidgetVectors_widgets
        getter_filters frame scenarioFrame_def plottable_def toLower_tags)
  from updateData_valid_cases [OF valid]
  have "fst (updateData read d) = d3 \<or> fst (updateData read d) = regenerateVisibility d3"
    by (simp add: d3_def)
  with titles total have "widgetTitles (fst (updateData read d)) = [a, b, t1, t2, t3, a]
      \<and> totalWidgetCount (fst (updateData read d)) = 6"
    by (auto simp: regenerateVisibility_titles)
  with kinds show ?thesis by simp
qed

theorem widgetTitles_kind_order_witness:
  "readParsed (jsonDocument (m_latestJsonFrame
       (selectLatestJSON (frameInfo 1 (Some (scenarioFrame ''T'' ''A'' ''B'' ''x'' ''y'' ''z'')))
          (Dashboard_new emptyInfo))))
     (m_latestFrame
       (selectLatestJSON (frameInfo 1 (Some (scenarioFrame ''T'' ''A'' ''B'' ''x'' ''y'' ''z'')))
          (Dashboard_new emptyInfo)))
   = (True, scenarioFrame ''T'' ''A'' ''B'' ''x'' ''y'' ''z'')
   \<and> widgetTitles scenarioDashboard = [''A'', ''B'', ''x'', ''y'', ''z'', ''A'']
   \<and> totalWidgetCount scenarioDashboard = 6"
proof -
  let ?d = "selectLatestJSON
      (frameInfo 1 (Some (scenarioFrame ''T'' ''A'' ''B'' ''x'' ''y'' ''z'')))
      (Dashboard_new emptyInfo)"
  have h: "readParsed (jsonDocument (m_latestJsonFrame ?d)) (m_latestFrame ?d)
           = (True, scenarioFrame ''T'' ''A'' ''B'' ''x'' ''y'' ''z'')"
    by (simp add: readParsed_def Frame_read_def selectLatestJSON_def frameInfo_def
        Dashboard_new_def emptyInfo_def Let_def)
  note widgetTitles_kind_order
    [where read = readParsed and d = ?d and t = "''T''" and a = "''A''" and b = "''B''"
       and ?t1.0 = "''x''" and ?t2.0 = "''y''" and ?t3.0 = "''z''"]
  from this [OF h] h show ?thesis
    by (simp add: scenarioDashboard_def ingest_def)
qed

subsection \<open>Handles written with capital letters\<close>

text \<open>
  C9. The claim has classification ignore letter case for the group-level kinds and for
  the dataset-level kinds alike. \<^verbatim>\<open>getWidgetGroups\<close> compares
  \<^verbatim>\<open>group->widget().toLower()\<close> with the tag, and the group \<^verbatim>\<open>"Map"\<close> is a map widget;
  \<^verbatim>\<open>getWidgetDatasets\<close> compares \<^verbatim>\<open>dataset->widget()\<close> itself, and the dataset \<^verbatim>\<open>"Bar"\<close>
  is not a bar widget.
\<close>

theorem capital_handles:
  "getWidgetGroups
     (fst (ingest readParsed (frameInfo 1 (Some capitalFrame)) (Dashboard_new emptyInfo)))
     ''map'' = groups capitalFrame
   \<and> getWidgetDatasets
       (fst (ingest readParsed (frameInfo 1 (Some capitalFrame)) (Dashboard_new emptyInfo)))
       ''bar'' = []
   \<and> mapCount
       (fst (ingest readParsed (frameInfo 1 (Some capitalFrame)) (Dashboard_new emptyInfo)))
     = 1
   \<and> barCount
       (fst (ingest readParsed (frameInfo 1 (Some capitalFrame)) (Dashboard_new emptyInfo)))
     = 0"
  by code_simp

end
